theory Spec2Isabelle
  imports Main
begin

section \<open>Python values\<close>

text \<open>
  \<^verbatim>\<open>analyze_code_metrics\<close> receives a decoded GitHub API response: a Python object that is
  expected to be a dict with string keys. The values it reads are dynamically typed, so the
  model keeps the tag of every value. Scalars are \<^verbatim>\<open>None\<close>, \<^verbatim>\<open>bool\<close>, \<^verbatim>\<open>int\<close> (unbounded)
  and \<^verbatim>\<open>str\<close>; floats, lists and nested dicts as dict values are outside the model.
\<close>

datatype pyval = PyNone | PyBool bool | PyInt int | PyStr string

type_synonym pydict = "string \<rightharpoonup> pyval"

datatype pyobj = Scalar pyval | Dict pydict

datatype pyerror = TypeError | AttributeError

text \<open>Sequencing of steps that may raise: the first exception ends the computation.\<close>

definition bind_result :: "pyerror + 'a \<Rightarrow> ('a \<Rightarrow> pyerror + 'b) \<Rightarrow> pyerror + 'b" where
  "bind_result r f = (case r of Inl e \<Rightarrow> Inl e | Inr x \<Rightarrow> f x)"

text \<open>Truth value testing, as \<^verbatim>\<open>not repo_data\<close> performs it.\<close>

fun truthy :: "pyobj \<Rightarrow> bool" where
  "truthy (Scalar PyNone) = False"
| "truthy (Scalar (PyBool b)) = b"
| "truthy (Scalar (PyInt i)) = (i \<noteq> 0)"
| "truthy (Scalar (PyStr s)) = (s \<noteq> [])"
| "truthy (Dict d) = (d \<noteq> Map.empty)"

text \<open>
  \<^verbatim>\<open>obj.get(key, default)\<close>: only a dict has the method; on any other (truthy) object the
  attribute lookup raises \<^verbatim>\<open>AttributeError\<close>. A key that is present yields its value whatever
  that value is, \<^verbatim>\<open>None\<close> included.
\<close>

definition dict_get :: "pydict \<Rightarrow> string \<Rightarrow> pyval \<Rightarrow> pyval" where
  "dict_get d key dflt = (case d key of None \<Rightarrow> dflt | Some v \<Rightarrow> v)"

definition py_get :: "pyobj \<Rightarrow> string \<Rightarrow> pyval \<Rightarrow> pyerror + pyval" where
  "py_get obj key dflt =
     (case obj of
        Scalar _ \<Rightarrow> Inl AttributeError
      | Dict d \<Rightarrow> Inr (dict_get d key dflt))"

text \<open>
  Ordering against an int literal. \<^verbatim>\<open>bool\<close> is a subclass of \<^verbatim>\<open>int\<close> (\<^verbatim>\<open>True\<close> is 1);
  \<^verbatim>\<open>None\<close> and \<^verbatim>\<open>str\<close> do not order against an int and raise \<^verbatim>\<open>TypeError\<close>.
\<close>

fun int_value :: "pyval \<Rightarrow> int option" where
  "int_value (PyInt i) = Some i"
| "int_value (PyBool b) = Some (if b then 1 else 0)"
| "int_value PyNone = None"
| "int_value (PyStr s) = None"

definition py_lt :: "pyval \<Rightarrow> int \<Rightarrow> pyerror + bool" where
  "py_lt v c = (case int_value v of None \<Rightarrow> Inl TypeError | Some i \<Rightarrow> Inr (i < c))"

definition py_gt :: "pyval \<Rightarrow> int \<Rightarrow> pyerror + bool" where
  "py_gt v c = (case int_value v of None \<Rightarrow> Inl TypeError | Some i \<Rightarrow> Inr (i > c))"

subsection \<open>String formatting\<close>

definition digit_char :: "nat \<Rightarrow> char" where
  "digit_char d = char_of (48 + d)"

fun str_nat :: "nat \<Rightarrow> string" where
  "str_nat n = (if n < 10 then [digit_char n] else str_nat (n div 10) @ [digit_char (n mod 10)])"

declare str_nat.simps [simp del]

definition str_int :: "int \<Rightarrow> string" where
  "str_int i = (if i < 0 then CHR ''-'' # str_nat (nat (- i)) else str_nat (nat i))"

text \<open>What a replacement field \<^verbatim>\<open>{x}\<close> of an f-string inserts for a scalar \<^verbatim>\<open>x\<close>.\<close>

fun py_str :: "pyval \<Rightarrow> string" where
  "py_str (PyStr s) = s"
| "py_str (PyInt i) = str_int i"
| "py_str (PyBool b) = (if b then ''True'' else ''False'')"
| "py_str PyNone = ''None''"

text \<open>\<^verbatim>\<open>str.lower()\<close> on ASCII text: the letters A to Z move to a to z.\<close>

definition lower_char :: "char \<Rightarrow> char" where
  "lower_char c =
     (let n = (of_char c :: nat) in if 65 \<le> n \<and> n \<le> 90 then char_of (n + 32) else c)"

definition lower :: "string \<Rightarrow> string" where
  "lower s = map lower_char s"

section \<open>The metrics calculator\<close>

text \<open>
  The three derived classifications, named after the local variables of
  \<^verbatim>\<open>analyze_code_metrics\<close> that hold them. Each comparison may raise.
\<close>

definition project_size :: "pyval \<Rightarrow> pyerror + string" where
  "project_size size_kb =
     bind_result (py_lt size_kb 1000) (\<lambda>small.
       if small then Inr ''Small''
       else bind_result (py_lt size_kb 10000) (\<lambda>medium.
         if medium then Inr ''Medium'' else Inr ''Large''))"

definition popularity :: "pyval \<Rightarrow> pyerror + string" where
  "popularity stars =
     bind_result (py_lt stars 100) (\<lambda>low.
       if low then Inr ''Low''
       else bind_result (py_lt stars 1000) (\<lambda>medium.
         if medium then Inr ''Medium'' else Inr ''High''))"

definition activity_level :: "pyval \<Rightarrow> pyerror + string" where
  "activity_level issues =
     bind_result (py_gt issues 10) (\<lambda>active.
       if active then Inr ''Active''
       else bind_result (py_gt issues 0) (\<lambda>moderate.
         if moderate then Inr ''Moderate'' else Inr ''Low''))"

definition analyze_code_metrics :: "pyobj \<Rightarrow> pyerror + pydict" where
  "analyze_code_metrics repo_data =
     (if \<not> truthy repo_data then
        Inr [''error'' \<mapsto> PyStr ''No repository data provided'']
      else
        bind_result (py_get repo_data ''language'' (PyStr ''Unknown'')) (\<lambda>language.
        bind_result (py_get repo_data ''size'' (PyInt 0)) (\<lambda>size_kb.
        bind_result (py_get repo_data ''stargazers_count'' (PyInt 0)) (\<lambda>stars.
        bind_result (py_get repo_data ''forks_count'' (PyInt 0)) (\<lambda>forks.
        bind_result (py_get repo_data ''open_issues_count'' (PyInt 0)) (\<lambda>issues.
        bind_result (project_size size_kb) (\<lambda>psize.
        bind_result (popularity stars) (\<lambda>pop.
        bind_result (activity_level issues) (\<lambda>act.
          Inr [''main_language'' \<mapsto> language,
               ''project_size'' \<mapsto> PyStr psize,
               ''popularity_level'' \<mapsto> PyStr pop,
               ''activity_level'' \<mapsto> PyStr act,
               ''repository_size_kb'' \<mapsto> size_kb,
               ''stars'' \<mapsto> stars,
               ''forks'' \<mapsto> forks,
               ''open_issues'' \<mapsto> issues,
               ''complexity_summary'' \<mapsto>
                 PyStr (psize @ '' '' @ py_str language @ '' project with ''
                        @ lower pop @ '' popularity'')])))))))))"

section \<open>Descriptors of the data model\<close>

text \<open>
  The repository descriptors the function is meant for: a key that is present holds a value
  of the expected type, a string for \<^verbatim>\<open>language\<close> and an int for each of the four counters.
  Any key may be missing, and any other key may be present with any value. The sign of the
  counters is left open here; where a statement needs it, it says so.
\<close>

fun is_str :: "pyval \<Rightarrow> bool" where
  "is_str (PyStr s) = True"
| "is_str v = False"

fun is_int :: "pyval \<Rightarrow> bool" where
  "is_int (PyInt i) = True"
| "is_int v = False"

definition absent_or :: "(pyval \<Rightarrow> bool) \<Rightarrow> pyval option \<Rightarrow> bool" where
  "absent_or P entry = (case entry of None \<Rightarrow> True | Some v \<Rightarrow> P v)"

definition well_formed :: "pydict \<Rightarrow> bool" where
  "well_formed d \<longleftrightarrow>
     absent_or is_str (d ''language'') \<and>
     absent_or is_int (d ''size'') \<and>
     absent_or is_int (d ''stargazers_count'') \<and>
     absent_or is_int (d ''forks_count'') \<and>
     absent_or is_int (d ''open_issues_count'')"

text \<open>
  A descriptor with all five keys, used to instantiate the statements below:
  \<^verbatim>\<open>{"language": "Python", "size": 5000, "stargazers_count": 500, "forks_count": 10,
  "open_issues_count": 3}\<close>.
\<close>

definition example_descriptor :: pydict where
  "example_descriptor =
     [''language'' \<mapsto> PyStr ''Python'', ''size'' \<mapsto> PyInt 5000,
      ''stargazers_count'' \<mapsto> PyInt 500, ''forks_count'' \<mapsto> PyInt 10,
      ''open_issues_count'' \<mapsto> PyInt 3]"

section \<open>The function on the object store\<close>

text \<open>
  Python passes \<^verbatim>\<open>repo_data\<close> by reference, and the caller keeps that reference: what a call
  does to the objects that exist is visible only when the body runs on the object store. The
  store is the list of live objects and a reference is an index into it. A statement is a
  function from the store to an outcome (an exception or a value) and the store it leaves.
  Scalars are immutable, so the values a dict holds are kept in the dict itself. A reference
  always points at a live object: the statements below are meant for \<open>a < length s\<close> only,
  and the statement about calls assumes it.
\<close>

type_synonym store = "pyobj list"

type_synonym 'a st = "store \<Rightarrow> (pyerror + 'a) \<times> store"

text \<open>An expression that touches no object, and sequencing: an exception ends the body.\<close>

definition st_lift :: "pyerror + 'a \<Rightarrow> 'a st" where
  "st_lift r s = (r, s)"

definition st_bind :: "'a st \<Rightarrow> ('a \<Rightarrow> 'b st) \<Rightarrow> 'b st" where
  "st_bind m f s = (case m s of (Inl e, s') \<Rightarrow> (Inl e, s') | (Inr x, s') \<Rightarrow> f x s')"

text \<open>
  The operations on objects. \<^verbatim>\<open>not obj\<close> and \<^verbatim>\<open>obj.get(key, default)\<close> read the object behind
  the reference; a dict display \<^verbatim>\<open>{...}\<close> allocates a new object at the next free address;
  an item assignment \<^verbatim>\<open>obj[key] = value\<close> changes the object behind the reference in place
  (and raises \<^verbatim>\<open>TypeError\<close> on an object that supports no item assignment).
\<close>

definition st_truthy :: "nat \<Rightarrow> bool st" where
  "st_truthy a s = (Inr (truthy (s ! a)), s)"

definition st_get :: "nat \<Rightarrow> string \<Rightarrow> pyval \<Rightarrow> pyval st" where
  "st_get a key dflt s = (py_get (s ! a) key dflt, s)"

definition st_new_dict :: "pydict \<Rightarrow> nat st" where
  "st_new_dict d s = (Inr (length s), s @ [Dict d])"

definition st_setitem :: "nat \<Rightarrow> string \<Rightarrow> pyval \<Rightarrow> unit st" where
  "st_setitem a key v s =
     (case s ! a of
        Scalar _ \<Rightarrow> (Inl TypeError, s)
      | Dict d \<Rightarrow> (Inr (), s[a := Dict (d(key \<mapsto> v))]))"

text \<open>
  The body of \<^verbatim>\<open>analyze_code_metrics\<close>, statement by statement, on the store: the guard
  \<^verbatim>\<open>if not repo_data\<close> and its \<^verbatim>\<open>return {"error": ...}\<close>, the five \<^verbatim>\<open>repo_data.get\<close> calls, the
  three classifications (comparisons of the values read, which touch no object), and the
  \<^verbatim>\<open>return {...}\<close> of the summary. The body contains no item assignment, no call of a mutating
  method, no \<^verbatim>\<open>global\<close> statement and no input or output.
\<close>

definition analyze_code_metrics_call :: "nat \<Rightarrow> nat st" where
  "analyze_code_metrics_call repo_data =
     st_bind (st_truthy repo_data) (\<lambda>given.
       if \<not> given then
         st_new_dict [''error'' \<mapsto> PyStr ''No repository data provided'']
       else
         st_bind (st_get repo_data ''language'' (PyStr ''Unknown'')) (\<lambda>language.
         st_bind (st_get repo_data ''size'' (PyInt 0)) (\<lambda>size_kb.
         st_bind (st_get repo_data ''stargazers_count'' (PyInt 0)) (\<lambda>stars.
         st_bind (st_get repo_data ''forks_count'' (PyInt 0)) (\<lambda>forks.
         st_bind (st_get repo_data ''open_issues_count'' (PyInt 0)) (\<lambda>issues.
         st_bind (st_lift (project_size size_kb)) (\<lambda>psize.
         st_bind (st_lift (popularity stars)) (\<lambda>pop.
         st_bind (st_lift (activity_level issues)) (\<lambda>act.
           st_new_dict
             [''main_language'' \<mapsto> language,
              ''project_size'' \<mapsto> PyStr psize,
              ''popularity_level'' \<mapsto> PyStr pop,
              ''activity_level'' \<mapsto> PyStr act,
              ''repository_size_kb'' \<mapsto> size_kb,
              ''stars'' \<mapsto> stars,
              ''forks'' \<mapsto> forks,
              ''open_issues'' \<mapsto> issues,
              ''complexity_summary'' \<mapsto>
                PyStr (psize @ '' '' @ py_str language @ '' project with ''
                       @ lower pop @ '' popularity'')])))))))))"

text \<open>The outcome of a call by value: the exception raised, or the object returned.\<close>

definition returned :: "(pyerror + nat) \<times> store \<Rightarrow> pyerror + pyobj" where
  "returned c = (case fst c of Inl e \<Rightarrow> Inl e | Inr p \<Rightarrow> Inr (snd c ! p))"

section \<open>Evaluation lemmas\<close>

lemma lower_Low: "lower ''Low'' = ''low''"
  by code_simp

lemma lower_Medium: "lower ''Medium'' = ''medium''"
  by code_simp

lemma lower_High: "lower ''High'' = ''high''"
  by code_simp

lemma project_size_int:
  "int_value v = Some n \<Longrightarrow>
   project_size v =
     Inr (if n < 1000 then ''Small'' else if n < 10000 then ''Medium'' else ''Large'')"
  by (simp add: project_size_def py_lt_def bind_result_def)

lemma project_size_raises: "int_value v = None \<Longrightarrow> project_size v = Inl TypeError"
  by (simp add: project_size_def py_lt_def bind_result_def)

lemma popularity_int:
  "int_value v = Some n \<Longrightarrow>
   popularity v = Inr (if n < 100 then ''Low'' else if n < 1000 then ''Medium'' else ''High'')"
  by (simp add: popularity_def py_lt_def bind_result_def)

lemma popularity_raises: "int_value v = None \<Longrightarrow> popularity v = Inl TypeError"
  by (simp add: popularity_def py_lt_def bind_result_def)

lemma activity_level_int:
  "int_value v = Some n \<Longrightarrow>
   activity_level v =
     Inr (if n > 10 then ''Active'' else if n > 0 then ''Moderate'' else ''Low'')"
  by (simp add: activity_level_def py_gt_def bind_result_def)

lemma activity_level_raises: "int_value v = None \<Longrightarrow> activity_level v = Inl TypeError"
  by (simp add: activity_level_def py_gt_def bind_result_def)

text \<open>On a non-empty dict the five reads succeed, and the three classifications decide.\<close>

lemma analyze_Dict:
  assumes "d \<noteq> Map.empty"
  shows "analyze_code_metrics (Dict d) =
     bind_result (project_size (dict_get d ''size'' (PyInt 0))) (\<lambda>psize.
     bind_result (popularity (dict_get d ''stargazers_count'' (PyInt 0))) (\<lambda>pop.
     bind_result (activity_level (dict_get d ''open_issues_count'' (PyInt 0))) (\<lambda>act.
       Inr [''main_language'' \<mapsto> dict_get d ''language'' (PyStr ''Unknown''),
            ''project_size'' \<mapsto> PyStr psize,
            ''popularity_level'' \<mapsto> PyStr pop,
            ''activity_level'' \<mapsto> PyStr act,
            ''repository_size_kb'' \<mapsto> dict_get d ''size'' (PyInt 0),
            ''stars'' \<mapsto> dict_get d ''stargazers_count'' (PyInt 0),
            ''forks'' \<mapsto> dict_get d ''forks_count'' (PyInt 0),
            ''open_issues'' \<mapsto> dict_get d ''open_issues_count'' (PyInt 0),
            ''complexity_summary'' \<mapsto>
              PyStr (psize @ '' '' @ py_str (dict_get d ''language'' (PyStr ''Unknown''))
                     @ '' project with '' @ lower pop @ '' popularity'')])))"
  using assms unfolding analyze_code_metrics_def py_get_def
  by (simp add: bind_result_def)

text \<open>When the three compared values are ints (or bools), the result is this dict.\<close>

lemma analyze_int_fields:
  assumes "d \<noteq> Map.empty"
    and "int_value (dict_get d ''size'' (PyInt 0)) = Some s"
    and "int_value (dict_get d ''stargazers_count'' (PyInt 0)) = Some t"
    and "int_value (dict_get d ''open_issues_count'' (PyInt 0)) = Some i"
  shows "analyze_code_metrics (Dict d) =
       Inr [''main_language'' \<mapsto> dict_get d ''language'' (PyStr ''Unknown''),
            ''project_size'' \<mapsto>
              PyStr (if s < 1000 then ''Small'' else if s < 10000 then ''Medium'' else ''Large''),
            ''popularity_level'' \<mapsto>
              PyStr (if t < 100 then ''Low'' else if t < 1000 then ''Medium'' else ''High''),
            ''activity_level'' \<mapsto>
              PyStr (if i > 10 then ''Active'' else if i > 0 then ''Moderate'' else ''Low''),
            ''repository_size_kb'' \<mapsto> dict_get d ''size'' (PyInt 0),
            ''stars'' \<mapsto> dict_get d ''stargazers_count'' (PyInt 0),
            ''forks'' \<mapsto> dict_get d ''forks_count'' (PyInt 0),
            ''open_issues'' \<mapsto> dict_get d ''open_issues_count'' (PyInt 0),
            ''complexity_summary'' \<mapsto>
              PyStr ((if s < 1000 then ''Small'' else if s < 10000 then ''Medium'' else ''Large'')
                     @ '' '' @ py_str (dict_get d ''language'' (PyStr ''Unknown''))
                     @ '' project with ''
                     @ lower (if t < 100 then ''Low'' else if t < 1000 then ''Medium'' else ''High'')
                     @ '' popularity'')]"
  unfolding analyze_Dict [OF assms(1)]
    project_size_int [OF assms(2)] popularity_int [OF assms(3)] activity_level_int [OF assms(4)]
  by (simp only: bind_result_def sum.case)

text \<open>When one of them is not, the comparison on it raises.\<close>

lemma analyze_raises:
  assumes "d \<noteq> Map.empty"
    and "int_value (dict_get d ''size'' (PyInt 0)) = None
       \<or> int_value (dict_get d ''stargazers_count'' (PyInt 0)) = None
       \<or> int_value (dict_get d ''open_issues_count'' (PyInt 0)) = None"
  shows "analyze_code_metrics (Dict d) = Inl TypeError"
proof -
  have ps: "project_size v = Inl TypeError \<or> (\<exists>x. project_size v = Inr x)" for v
    by (cases "int_value v") (simp_all add: project_size_raises project_size_int)
  have pp: "popularity v = Inl TypeError \<or> (\<exists>x. popularity v = Inr x)" for v
    by (cases "int_value v") (simp_all add: popularity_raises popularity_int)
  show ?thesis
    using assms(2) ps [of "dict_get d ''size'' (PyInt 0)"]
      pp [of "dict_get d ''stargazers_count'' (PyInt 0)"]
    unfolding analyze_Dict [OF assms(1)]
    by (auto simp: bind_result_def project_size_raises popularity_raises activity_level_raises)
qed

subsection \<open>Well-formed descriptors\<close>

lemma absent_or_is_int:
  "absent_or is_int (d key) \<Longrightarrow> \<exists>i. dict_get d key (PyInt 0) = PyInt i"
  by (cases "d key") (auto simp: absent_or_def dict_get_def elim: is_int.elims)

lemma absent_or_is_str:
  "absent_or is_str (d key) \<Longrightarrow> \<exists>s. dict_get d key (PyStr dflt) = PyStr s"
  by (cases "d key") (auto simp: absent_or_def dict_get_def elim: is_str.elims)

lemma well_formed_int_values:
  assumes "well_formed d"
  shows "\<exists>s t i. dict_get d ''size'' (PyInt 0) = PyInt s
     \<and> dict_get d ''stargazers_count'' (PyInt 0) = PyInt t
     \<and> dict_get d ''open_issues_count'' (PyInt 0) = PyInt i"
  using assms absent_or_is_int [of d "''size''"] absent_or_is_int [of d "''stargazers_count''"]
    absent_or_is_int [of d "''open_issues_count''"]
  unfolding well_formed_def by blast

subsection \<open>The example descriptor\<close>

lemma example_nonempty: "example_descriptor \<noteq> Map.empty"
  by (simp add: example_descriptor_def)

lemma example_well_formed: "well_formed example_descriptor"
  by (simp add: example_descriptor_def well_formed_def absent_or_def)

lemma example_fields:
  "dict_get example_descriptor ''language'' (PyStr ''Unknown'') = PyStr ''Python''"
  "dict_get example_descriptor ''size'' (PyInt 0) = PyInt 5000"
  "dict_get example_descriptor ''stargazers_count'' (PyInt 0) = PyInt 500"
  "dict_get example_descriptor ''forks_count'' (PyInt 0) = PyInt 10"
  "dict_get example_descriptor ''open_issues_count'' (PyInt 0) = PyInt 3"
  by (simp_all add: example_descriptor_def dict_get_def)

text \<open>
  The keys of a returned summary. A truthy argument either raises or returns a dict with
  exactly these keys; \<^verbatim>\<open>error\<close> is not among them.
\<close>

lemma summary_dom:
  "dom [''main_language'' \<mapsto> v1, ''project_size'' \<mapsto> v2, ''popularity_level'' \<mapsto> v3,
        ''activity_level'' \<mapsto> v4, ''repository_size_kb'' \<mapsto> v5, ''stars'' \<mapsto> v6,
        ''forks'' \<mapsto> v7, ''open_issues'' \<mapsto> v8, ''complexity_summary'' \<mapsto> v9] =
   {''complexity_summary'', ''open_issues'', ''forks'', ''stars'', ''repository_size_kb'',
    ''activity_level'', ''popularity_level'', ''project_size'', ''main_language''}"
  by (simp only: dom_fun_upd dom_empty option.simps if_False)

lemma error_not_summary_key:
  "''error'' \<notin> {''complexity_summary'', ''open_issues'', ''forks'', ''stars'',
      ''repository_size_kb'', ''activity_level'', ''popularity_level'', ''project_size'',
      ''main_language''}"
  by simp

lemma analyze_truthy:
  assumes "truthy x"
  shows "(\<exists>e. analyze_code_metrics x = Inl e)
       \<or> (\<exists>r. analyze_code_metrics x = Inr r
              \<and> dom r = {''complexity_summary'', ''open_issues'', ''forks'', ''stars'',
                         ''repository_size_kb'', ''activity_level'', ''popularity_level'',
                         ''project_size'', ''main_language''})"
proof (cases x)
  case (Scalar v)
  with assms show ?thesis
    by (simp add: analyze_code_metrics_def py_get_def bind_result_def)
next
  case (Dict d)
  with assms have ne: "d \<noteq> Map.empty" by simp
  show ?thesis
  proof (cases "int_value (dict_get d ''size'' (PyInt 0)) = None
       \<or> int_value (dict_get d ''stargazers_count'' (PyInt 0)) = None
       \<or> int_value (dict_get d ''open_issues_count'' (PyInt 0)) = None")
    case True
    from analyze_raises [OF ne True] Dict show ?thesis by simp
  next
    case False
    then obtain s t i where
      "int_value (dict_get d ''size'' (PyInt 0)) = Some s"
      "int_value (dict_get d ''stargazers_count'' (PyInt 0)) = Some t"
      "int_value (dict_get d ''open_issues_count'' (PyInt 0)) = Some i"
      by auto
    from analyze_int_fields [OF ne this] Dict show ?thesis
      by (simp only: summary_dom sum.inject simp_thms ex_simps)
  qed
qed

text \<open>
  On a non-empty well-formed descriptor the function returns, and the result is the dict of
  \<open>analyze_int_fields\<close> at the ints the descriptor holds.
\<close>

lemma analyze_well_formed:
  assumes "truthy (Dict d)" and "well_formed d"
  obtains s t i where
    "dict_get d ''size'' (PyInt 0) = PyInt s"
    "dict_get d ''stargazers_count'' (PyInt 0) = PyInt t"
    "dict_get d ''open_issues_count'' (PyInt 0) = PyInt i"
    "analyze_code_metrics (Dict d) =
       Inr [''main_language'' \<mapsto> dict_get d ''language'' (PyStr ''Unknown''),
            ''project_size'' \<mapsto>
              PyStr (if s < 1000 then ''Small'' else if s < 10000 then ''Medium'' else ''Large''),
            ''popularity_level'' \<mapsto>
              PyStr (if t < 100 then ''Low'' else if t < 1000 then ''Medium'' else ''High''),
            ''activity_level'' \<mapsto>
              PyStr (if i > 10 then ''Active'' else if i > 0 then ''Moderate'' else ''Low''),
            ''repository_size_kb'' \<mapsto> dict_get d ''size'' (PyInt 0),
            ''stars'' \<mapsto> dict_get d ''stargazers_count'' (PyInt 0),
            ''forks'' \<mapsto> dict_get d ''forks_count'' (PyInt 0),
            ''open_issues'' \<mapsto> dict_get d ''open_issues_count'' (PyInt 0),
            ''complexity_summary'' \<mapsto>
              PyStr ((if s < 1000 then ''Small'' else if s < 10000 then ''Medium'' else ''Large'')
                     @ '' '' @ py_str (dict_get d ''language'' (PyStr ''Unknown''))
                     @ '' project with ''
                     @ lower (if t < 100 then ''Low'' else if t < 1000 then ''Medium'' else ''High'')
                     @ '' popularity'')]"
proof -
  from assms(1) have ne: "d \<noteq> Map.empty" by simp
  from well_formed_int_values [OF assms(2)] obtain s t i where
    f: "dict_get d ''size'' (PyInt 0) = PyInt s"
      "dict_get d ''stargazers_count'' (PyInt 0) = PyInt t"
      "dict_get d ''open_issues_count'' (PyInt 0) = PyInt i"
    by blast
  have "int_value (dict_get d ''size'' (PyInt 0)) = Some s"
    "int_value (dict_get d ''stargazers_count'' (PyInt 0)) = Some t"
    "int_value (dict_get d ''open_issues_count'' (PyInt 0)) = Some i"
    by (simp_all add: f)
  from analyze_int_fields [OF ne this] f that show thesis
    by blast
qed

text \<open>The result on the example descriptor, and an ill-typed counter that makes the call raise.\<close>

lemma example_result:
  "analyze_code_metrics (Dict example_descriptor) =
      Inr [''main_language'' \<mapsto> PyStr ''Python'',
           ''project_size'' \<mapsto> PyStr ''Medium'',
           ''popularity_level'' \<mapsto> PyStr ''Medium'',
           ''activity_level'' \<mapsto> PyStr ''Moderate'',
           ''repository_size_kb'' \<mapsto> PyInt 5000,
           ''stars'' \<mapsto> PyInt 500,
           ''forks'' \<mapsto> PyInt 10,
           ''open_issues'' \<mapsto> PyInt 3,
           ''complexity_summary'' \<mapsto> PyStr ''Medium Python project with medium popularity'']"
  using analyze_int_fields [OF example_nonempty, of 5000 500 3]
  by (simp add: example_fields lower_Medium)

lemma ill_typed_size_raises: "analyze_code_metrics (Dict [''size'' \<mapsto> PyNone]) = Inl TypeError"
  by (rule analyze_raises) (simp_all add: dict_get_def)

text \<open>The decimal rendering of an int in a replacement field.\<close>

lemma str_int_example: "py_str (PyInt (- 120)) = ''-120''"
  by code_simp

text \<open>
  A \<^verbatim>\<open>language\<close> key that is present with the value \<^verbatim>\<open>None\<close> (the API's \<^verbatim>\<open>null\<close>) is not
  defaulted: the value is passed through and formatted as \<^verbatim>\<open>None\<close>.
\<close>

lemma null_language_result:
  "analyze_code_metrics (Dict [''language'' \<mapsto> PyNone]) =
      Inr [''main_language'' \<mapsto> PyNone,
           ''project_size'' \<mapsto> PyStr ''Small'',
           ''popularity_level'' \<mapsto> PyStr ''Low'',
           ''activity_level'' \<mapsto> PyStr ''Low'',
           ''repository_size_kb'' \<mapsto> PyInt 0,
           ''stars'' \<mapsto> PyInt 0,
           ''forks'' \<mapsto> PyInt 0,
           ''open_issues'' \<mapsto> PyInt 0,
           ''complexity_summary'' \<mapsto> PyStr ''Small None project with low popularity'']"
proof -
  have ne: "[''language'' \<mapsto> PyNone] \<noteq> Map.empty" by simp
  show ?thesis
    using analyze_int_fields [OF ne, of 0 0 0]
    by (simp add: dict_get_def lower_Low)
qed

section \<open>The empty descriptor and the error sentinel\<close>

text \<open>
  C1, as the specification states it: for the empty descriptor map \<^verbatim>\<open>{}\<close> the function
  returns the summary built from the defaults. It does not: \<^verbatim>\<open>{}\<close> is falsy, the guard
  \<^verbatim>\<open>if not repo_data\<close> takes it, and the result is the error sentinel.
\<close>

theorem empty_descriptor_counterexample:
  "analyze_code_metrics (Dict Map.empty) =
     Inr [''error'' \<mapsto> PyStr ''No repository data provided'']
   \<and> analyze_code_metrics (Dict Map.empty) \<noteq>
     Inr [''main_language'' \<mapsto> PyStr ''Unknown'',
          ''project_size'' \<mapsto> PyStr ''Small'',
          ''popularity_level'' \<mapsto> PyStr ''Low'',
          ''activity_level'' \<mapsto> PyStr ''Low'',
          ''repository_size_kb'' \<mapsto> PyInt 0,
          ''stars'' \<mapsto> PyInt 0,
          ''forks'' \<mapsto> PyInt 0,
          ''open_issues'' \<mapsto> PyInt 0,
          ''complexity_summary'' \<mapsto> PyStr ''Small Unknown project with low popularity'']
   \<and> (case analyze_code_metrics (Dict Map.empty) of
         Inl e \<Rightarrow> True
       | Inr r \<Rightarrow>
           r ''main_language'' = None \<and> r ''project_size'' = None
           \<and> r ''popularity_level'' = None \<and> r ''activity_level'' = None
           \<and> r ''complexity_summary'' = None)"
proof -
  have sentinel: "analyze_code_metrics (Dict Map.empty) =
      Inr [''error'' \<mapsto> PyStr ''No repository data provided'']"
    by (simp add: analyze_code_metrics_def)
  have "[''error'' \<mapsto> PyStr ''No repository data provided''] ''main_language'' = None"
    by simp
  moreover have
    "[''main_language'' \<mapsto> PyStr ''Unknown'',
      ''project_size'' \<mapsto> PyStr ''Small'',
      ''popularity_level'' \<mapsto> PyStr ''Low'',
      ''activity_level'' \<mapsto> PyStr ''Low'',
      ''repository_size_kb'' \<mapsto> PyInt 0,
      ''stars'' \<mapsto> PyInt 0,
      ''forks'' \<mapsto> PyInt 0,
      ''open_issues'' \<mapsto> PyInt 0,
      ''complexity_summary'' \<mapsto> PyStr ''Small Unknown project with low popularity'']
       ''main_language'' = Some (PyStr ''Unknown'')"
    by simp
  ultimately have differ:
    "[''error'' \<mapsto> PyStr ''No repository data provided''] \<noteq>
     [''main_language'' \<mapsto> PyStr ''Unknown'',
      ''project_size'' \<mapsto> PyStr ''Small'',
      ''popularity_level'' \<mapsto> PyStr ''Low'',
      ''activity_level'' \<mapsto> PyStr ''Low'',
      ''repository_size_kb'' \<mapsto> PyInt 0,
      ''stars'' \<mapsto> PyInt 0,
      ''forks'' \<mapsto> PyInt 0,
      ''open_issues'' \<mapsto> PyInt 0,
      ''complexity_summary'' \<mapsto> PyStr ''Small Unknown project with low popularity'']"
    by (metis option.distinct(1))
  show ?thesis
    unfolding sentinel using differ by simp
qed

text \<open>
  C1, amended: for the empty descriptor map \<^verbatim>\<open>{}\<close> the function returns the error sentinel;
  the summary built from the defaults (language \<^verbatim>\<open>Unknown\<close>, size \<^verbatim>\<open>Small\<close>, popularity
  \<^verbatim>\<open>Low\<close>, activity \<^verbatim>\<open>Low\<close>, the four counters 0 and the summary sentence
  \<^verbatim>\<open>Small Unknown project with low popularity\<close>) is what it returns for every non-empty
  descriptor that holds none of the five keys it reads.
\<close>

theorem defaults_for_missing_keys:
  assumes "truthy (Dict d)"
    and "d ''language'' = None" and "d ''size'' = None" and "d ''stargazers_count'' = None"
    and "d ''forks_count'' = None" and "d ''open_issues_count'' = None"
  shows "analyze_code_metrics (Dict Map.empty) =
           Inr [''error'' \<mapsto> PyStr ''No repository data provided'']
       \<and> analyze_code_metrics (Dict d) =
           Inr [''main_language'' \<mapsto> PyStr ''Unknown'',
                ''project_size'' \<mapsto> PyStr ''Small'',
                ''popularity_level'' \<mapsto> PyStr ''Low'',
                ''activity_level'' \<mapsto> PyStr ''Low'',
                ''repository_size_kb'' \<mapsto> PyInt 0,
                ''stars'' \<mapsto> PyInt 0,
                ''forks'' \<mapsto> PyInt 0,
                ''open_issues'' \<mapsto> PyInt 0,
                ''complexity_summary'' \<mapsto>
                  PyStr ''Small Unknown project with low popularity'']"
proof
  show "analyze_code_metrics (Dict Map.empty) =
      Inr [''error'' \<mapsto> PyStr ''No repository data provided'']"
    by (simp add: analyze_code_metrics_def)
next
  from assms(1) have ne: "d \<noteq> Map.empty" by simp
  have g: "dict_get d ''language'' (PyStr ''Unknown'') = PyStr ''Unknown''"
    "dict_get d ''size'' (PyInt 0) = PyInt 0"
    "dict_get d ''stargazers_count'' (PyInt 0) = PyInt 0"
    "dict_get d ''forks_count'' (PyInt 0) = PyInt 0"
    "dict_get d ''open_issues_count'' (PyInt 0) = PyInt 0"
    using assms(2-6) by (simp_all add: dict_get_def)
  show "analyze_code_metrics (Dict d) =
           Inr [''main_language'' \<mapsto> PyStr ''Unknown'',
                ''project_size'' \<mapsto> PyStr ''Small'',
                ''popularity_level'' \<mapsto> PyStr ''Low'',
                ''activity_level'' \<mapsto> PyStr ''Low'',
                ''repository_size_kb'' \<mapsto> PyInt 0,
                ''stars'' \<mapsto> PyInt 0,
                ''forks'' \<mapsto> PyInt 0,
                ''open_issues'' \<mapsto> PyInt 0,
                ''complexity_summary'' \<mapsto>
                  PyStr ''Small Unknown project with low popularity'']"
    by (simp add: analyze_int_fields [OF ne, of 0 0 0] g lower_Low)
qed

theorem defaults_for_missing_keys_witness:
  "truthy (Dict [''name'' \<mapsto> PyStr ''demo''])
   \<and> analyze_code_metrics (Dict [''name'' \<mapsto> PyStr ''demo'']) =
           Inr [''main_language'' \<mapsto> PyStr ''Unknown'',
                ''project_size'' \<mapsto> PyStr ''Small'',
                ''popularity_level'' \<mapsto> PyStr ''Low'',
                ''activity_level'' \<mapsto> PyStr ''Low'',
                ''repository_size_kb'' \<mapsto> PyInt 0,
                ''stars'' \<mapsto> PyInt 0,
                ''forks'' \<mapsto> PyInt 0,
                ''open_issues'' \<mapsto> PyInt 0,
                ''complexity_summary'' \<mapsto>
                  PyStr ''Small Unknown project with low popularity'']"
  using defaults_for_missing_keys [of "[''name'' \<mapsto> PyStr ''demo'']"]
  by simp

text \<open>
  C2: for every falsy argument (\<^verbatim>\<open>None\<close>, the empty dict, and the other falsy objects) the
  function returns exactly \<^verbatim>\<open>{"error": "No repository data provided"}\<close>, and for a truthy
  argument whatever dict it returns has no \<^verbatim>\<open>error\<close> key and has exactly the nine keys of a
  summary: falsiness is the only condition under which an error object is returned.
\<close>

theorem sentinel_iff_falsy:
  "(\<not> truthy x \<longrightarrow>
      analyze_code_metrics x = Inr [''error'' \<mapsto> PyStr ''No repository data provided''])
   \<and> (truthy x \<longrightarrow>
        (\<forall>r. analyze_code_metrics x = Inr r \<longrightarrow>
           ''error'' \<notin> dom r
           \<and> dom r = {''complexity_summary'', ''open_issues'', ''forks'', ''stars'',
                      ''repository_size_kb'', ''activity_level'', ''popularity_level'',
                      ''project_size'', ''main_language''}))"
proof (intro conjI impI allI)
  assume "\<not> truthy x"
  then show "analyze_code_metrics x = Inr [''error'' \<mapsto> PyStr ''No repository data provided'']"
    by (simp add: analyze_code_metrics_def)
next
  fix r
  assume "truthy x" and r: "analyze_code_metrics x = Inr r"
  from analyze_truthy [OF this(1)] r
  show d: "dom r = {''complexity_summary'', ''open_issues'', ''forks'', ''stars'',
                      ''repository_size_kb'', ''activity_level'', ''popularity_level'',
                      ''project_size'', ''main_language''}"
    by (simp only: sum.inject sum.distinct simp_thms ex_simps) 
  show "''error'' \<notin> dom r"
    unfolding d by (rule error_not_summary_key)
qed

theorem sentinel_iff_falsy_witness:
  "\<not> truthy (Scalar PyNone)
   \<and> analyze_code_metrics (Scalar PyNone) =
       Inr [''error'' \<mapsto> PyStr ''No repository data provided'']
   \<and> \<not> truthy (Dict Map.empty)
   \<and> analyze_code_metrics (Dict Map.empty) =
       Inr [''error'' \<mapsto> PyStr ''No repository data provided'']
   \<and> truthy (Dict example_descriptor)
   \<and> (case analyze_code_metrics (Dict example_descriptor) of
         Inl e \<Rightarrow> False
       | Inr r \<Rightarrow> ''error'' \<notin> dom r)"
proof -
  have t: "truthy (Dict example_descriptor)"
    using example_nonempty by simp
  obtain r where r: "analyze_code_metrics (Dict example_descriptor) = Inr r"
    using example_result by simp
  from sentinel_iff_falsy [of "Dict example_descriptor"] t r have "''error'' \<notin> dom r"
    by blast
  with t r show ?thesis
    using sentinel_iff_falsy [of "Scalar PyNone"] sentinel_iff_falsy [of "Dict Map.empty"]
    by simp
qed


section \<open>The three classifications\<close>

text \<open>
  C3: for every non-falsy (well-formed) descriptor the call returns a dict whose
  \<^verbatim>\<open>project_size\<close> is \<^verbatim>\<open>Small\<close> exactly when \<^verbatim>\<open>size_kb < 1000\<close>, \<^verbatim>\<open>Medium\<close> exactly when
  \<^verbatim>\<open>1000 <= size_kb < 10000\<close>, and \<^verbatim>\<open>Large\<close> exactly when \<^verbatim>\<open>size_kb >= 10000\<close>; here
  \<^verbatim>\<open>size_kb\<close> is what \<^verbatim>\<open>repo_data.get("size", 0)\<close> yields.
\<close>

theorem project_size_thresholds:
  assumes "truthy (Dict d)" and "well_formed d"
    and "dict_get d ''size'' (PyInt 0) = PyInt size_kb"
  shows "\<exists>r. analyze_code_metrics (Dict d) = Inr r
     \<and> (r ''project_size'' = Some (PyStr ''Small'') \<longleftrightarrow> size_kb < 1000)
     \<and> (r ''project_size'' = Some (PyStr ''Medium'') \<longleftrightarrow> 1000 \<le> size_kb \<and> size_kb < 10000)
     \<and> (r ''project_size'' = Some (PyStr ''Large'') \<longleftrightarrow> 10000 \<le> size_kb)"
proof -
  from assms(1,2) obtain s t i r where
    s: "dict_get d ''size'' (PyInt 0) = PyInt s"
    and r: "analyze_code_metrics (Dict d) = Inr r"
      "r ''project_size'' =
         Some (PyStr (if s < 1000 then ''Small'' else if s < 10000 then ''Medium'' else ''Large''))"
    by (rule analyze_well_formed) simp
  from s assms(3) have "s = size_kb" by simp
  with r show ?thesis by simp
qed

theorem project_size_thresholds_witness:
  "truthy (Dict example_descriptor) \<and> well_formed example_descriptor
   \<and> dict_get example_descriptor ''size'' (PyInt 0) = PyInt 5000
   \<and> (\<exists>r. analyze_code_metrics (Dict example_descriptor) = Inr r
          \<and> r ''project_size'' = Some (PyStr ''Medium''))"
proof -
  have h: "truthy (Dict example_descriptor)" "well_formed example_descriptor"
    "dict_get example_descriptor ''size'' (PyInt 0) = PyInt 5000"
    using example_nonempty example_well_formed example_fields by simp_all
  from project_size_thresholds [OF h] h show ?thesis by auto
qed

text \<open>
  C4: for every non-falsy (well-formed) descriptor the call returns a dict whose
  \<^verbatim>\<open>popularity_level\<close> is \<^verbatim>\<open>Low\<close> exactly when \<^verbatim>\<open>stars < 100\<close>, \<^verbatim>\<open>Medium\<close> exactly when
  \<^verbatim>\<open>100 <= stars < 1000\<close>, and \<^verbatim>\<open>High\<close> exactly when \<^verbatim>\<open>stars >= 1000\<close>.
\<close>

theorem popularity_level_thresholds:
  assumes "truthy (Dict d)" and "well_formed d"
    and "dict_get d ''stargazers_count'' (PyInt 0) = PyInt stars"
  shows "\<exists>r. analyze_code_metrics (Dict d) = Inr r
     \<and> (r ''popularity_level'' = Some (PyStr ''Low'') \<longleftrightarrow> stars < 100)
     \<and> (r ''popularity_level'' = Some (PyStr ''Medium'') \<longleftrightarrow> 100 \<le> stars \<and> stars < 1000)
     \<and> (r ''popularity_level'' = Some (PyStr ''High'') \<longleftrightarrow> 1000 \<le> stars)"
proof -
  from assms(1,2) obtain s t i r where
    t: "dict_get d ''stargazers_count'' (PyInt 0) = PyInt t"
    and r: "analyze_code_metrics (Dict d) = Inr r"
      "r ''popularity_level'' =
         Some (PyStr (if t < 100 then ''Low'' else if t < 1000 then ''Medium'' else ''High''))"
    by (rule analyze_well_formed) simp
  from t assms(3) have "t = stars" by simp
  with r show ?thesis by simp
qed

theorem popularity_level_thresholds_witness:
  "truthy (Dict example_descriptor) \<and> well_formed example_descriptor
   \<and> dict_get example_descriptor ''stargazers_count'' (PyInt 0) = PyInt 500
   \<and> (\<exists>r. analyze_code_metrics (Dict example_descriptor) = Inr r
          \<and> r ''popularity_level'' = Some (PyStr ''Medium''))"
proof -
  have h: "truthy (Dict example_descriptor)" "well_formed example_descriptor"
    "dict_get example_descriptor ''stargazers_count'' (PyInt 0) = PyInt 500"
    using example_nonempty example_well_formed example_fields by simp_all
  from popularity_level_thresholds [OF h] h show ?thesis by auto
qed

text \<open>
  C5: for every non-falsy (well-formed) descriptor the call returns a dict whose
  \<^verbatim>\<open>activity_level\<close> is \<^verbatim>\<open>Active\<close> exactly when \<^verbatim>\<open>open_issues_count > 10\<close>, \<^verbatim>\<open>Moderate\<close>
  exactly when \<^verbatim>\<open>0 < open_issues_count <= 10\<close>, and \<^verbatim>\<open>Low\<close> exactly when
  \<^verbatim>\<open>open_issues_count == 0\<close>. The data model takes the counter to be non-negative; the code
  tests \<^verbatim>\<open>issues > 0\<close>, so over all ints \<^verbatim>\<open>Low\<close> is the case \<^verbatim>\<open>open_issues_count <= 0\<close>, which
  on the non-negative counters is the case \<^verbatim>\<open>open_issues_count == 0\<close>.
\<close>

theorem activity_level_thresholds:
  assumes "truthy (Dict d)" and "well_formed d"
    and "dict_get d ''open_issues_count'' (PyInt 0) = PyInt issues"
  shows "\<exists>r. analyze_code_metrics (Dict d) = Inr r
     \<and> (r ''activity_level'' = Some (PyStr ''Active'') \<longleftrightarrow> issues > 10)
     \<and> (r ''activity_level'' = Some (PyStr ''Moderate'') \<longleftrightarrow> 0 < issues \<and> issues \<le> 10)
     \<and> (r ''activity_level'' = Some (PyStr ''Low'') \<longleftrightarrow> issues \<le> 0)
     \<and> (0 \<le> issues \<longrightarrow> (r ''activity_level'' = Some (PyStr ''Low'') \<longleftrightarrow> issues = 0))"
proof -
  from assms(1,2) obtain s t i r where
    i: "dict_get d ''open_issues_count'' (PyInt 0) = PyInt i"
    and r: "analyze_code_metrics (Dict d) = Inr r"
      "r ''activity_level'' =
         Some (PyStr (if i > 10 then ''Active'' else if i > 0 then ''Moderate'' else ''Low''))"
    by (rule analyze_well_formed) simp
  from i assms(3) have "i = issues" by simp
  with r show ?thesis by auto
qed

theorem activity_level_thresholds_witness:
  "truthy (Dict (example_descriptor(''open_issues_count'' \<mapsto> PyInt 0)))
   \<and> well_formed (example_descriptor(''open_issues_count'' \<mapsto> PyInt 0))
   \<and> dict_get (example_descriptor(''open_issues_count'' \<mapsto> PyInt 0))
         ''open_issues_count'' (PyInt 0) = PyInt 0
   \<and> (0::int) \<le> 0
   \<and> (\<exists>r. analyze_code_metrics
            (Dict (example_descriptor(''open_issues_count'' \<mapsto> PyInt 0))) = Inr r
          \<and> r ''activity_level'' = Some (PyStr ''Low''))"
proof -
  have h: "truthy (Dict (example_descriptor(''open_issues_count'' \<mapsto> PyInt 0)))"
    "well_formed (example_descriptor(''open_issues_count'' \<mapsto> PyInt 0))"
    "dict_get (example_descriptor(''open_issues_count'' \<mapsto> PyInt 0))
       ''open_issues_count'' (PyInt 0) = PyInt 0"
    by (simp_all add: example_descriptor_def well_formed_def absent_or_def dict_get_def)
  from activity_level_thresholds [OF h] h show ?thesis by auto
qed

section \<open>The summary sentence and the fields passed through\<close>

text \<open>
  C6: for every non-falsy (well-formed) descriptor, \<^verbatim>\<open>complexity_summary\<close> of the result is
  exactly the string \<^verbatim>\<open>"{project_size} {main_language} project with {popularity_level
  lower-cased} popularity"\<close>, built from the values of these three fields in the same result.
\<close>

theorem complexity_summary_format:
  assumes "truthy (Dict d)" and "well_formed d"
  shows "\<exists>r psize language pop.
       analyze_code_metrics (Dict d) = Inr r
     \<and> r ''project_size'' = Some (PyStr psize)
     \<and> r ''main_language'' = Some (PyStr language)
     \<and> r ''popularity_level'' = Some (PyStr pop)
     \<and> r ''complexity_summary'' =
         Some (PyStr (psize @ '' '' @ language @ '' project with '' @ lower pop
                      @ '' popularity''))"
proof -
  from assms(2) obtain l where l: "dict_get d ''language'' (PyStr ''Unknown'') = PyStr l"
    using absent_or_is_str [of d "''language''" "''Unknown''"] by (auto simp: well_formed_def)
  from assms obtain s t :: int and i :: int and r where
    "analyze_code_metrics (Dict d) = Inr r"
    "r ''project_size'' =
       Some (PyStr (if s < 1000 then ''Small'' else if s < 10000 then ''Medium'' else ''Large''))"
    "r ''main_language'' = Some (dict_get d ''language'' (PyStr ''Unknown''))"
    "r ''popularity_level'' =
       Some (PyStr (if t < 100 then ''Low'' else if t < 1000 then ''Medium'' else ''High''))"
    "r ''complexity_summary'' =
       Some (PyStr ((if s < 1000 then ''Small'' else if s < 10000 then ''Medium'' else ''Large'')
                     @ '' '' @ py_str (dict_get d ''language'' (PyStr ''Unknown''))
                     @ '' project with ''
                     @ lower (if t < 100 then ''Low'' else if t < 1000 then ''Medium'' else ''High'')
                     @ '' popularity''))"
    by (rule analyze_well_formed) simp
  with l show ?thesis by simp
qed

theorem complexity_summary_format_witness:
  "truthy (Dict example_descriptor) \<and> well_formed example_descriptor
   \<and> (\<exists>r. analyze_code_metrics (Dict example_descriptor) = Inr r
          \<and> r ''complexity_summary'' =
              Some (PyStr ''Medium Python project with medium popularity''))"
proof -
  have h: "truthy (Dict example_descriptor)" "well_formed example_descriptor"
    using example_nonempty example_well_formed by simp_all
  from complexity_summary_format [OF h] obtain r psize language pop where
    r: "analyze_code_metrics (Dict example_descriptor) = Inr r"
      "r ''project_size'' = Some (PyStr psize)"
      "r ''main_language'' = Some (PyStr language)"
      "r ''popularity_level'' = Some (PyStr pop)"
      "r ''complexity_summary'' =
         Some (PyStr (psize @ '' '' @ language @ '' project with '' @ lower pop
                      @ '' popularity''))"
    by blast
  note example_result
  with r have "psize = ''Medium''" "language = ''Python''" "pop = ''Medium''"
    by auto
  with r h show ?thesis
    by (simp add: lower_Medium)
qed

text \<open>
  C7: on a non-falsy descriptor the function reads only the keys \<^verbatim>\<open>language\<close>, \<^verbatim>\<open>size\<close>,
  \<^verbatim>\<open>stargazers_count\<close>, \<^verbatim>\<open>forks_count\<close> and \<^verbatim>\<open>open_issues_count\<close>: two non-empty descriptors
  that agree on these five keys give the same outcome. An absent \<^verbatim>\<open>language\<close> defaults to
  \<^verbatim>\<open>Unknown\<close> and an absent counter to 0; \<^verbatim>\<open>main_language\<close> is the input's value unchanged, and
  \<^verbatim>\<open>repository_size_kb\<close>, \<^verbatim>\<open>stars\<close>, \<^verbatim>\<open>forks\<close> and \<^verbatim>\<open>open_issues\<close> equal the input's values.
\<close>

theorem consumed_keys_and_pass_through:
  assumes "truthy (Dict d)" and "truthy (Dict d')"
    and "d' ''language'' = d ''language''"
    and "d' ''size'' = d ''size''"
    and "d' ''stargazers_count'' = d ''stargazers_count''"
    and "d' ''forks_count'' = d ''forks_count''"
    and "d' ''open_issues_count'' = d ''open_issues_count''"
  shows "analyze_code_metrics (Dict d') = analyze_code_metrics (Dict d)
     \<and> (well_formed d \<longrightarrow>
          (\<exists>r. analyze_code_metrics (Dict d) = Inr r
             \<and> r ''main_language'' =
                 Some (case d ''language'' of None \<Rightarrow> PyStr ''Unknown'' | Some v \<Rightarrow> v)
             \<and> r ''repository_size_kb'' =
                 Some (case d ''size'' of None \<Rightarrow> PyInt 0 | Some v \<Rightarrow> v)
             \<and> r ''stars'' =
                 Some (case d ''stargazers_count'' of None \<Rightarrow> PyInt 0 | Some v \<Rightarrow> v)
             \<and> r ''forks'' =
                 Some (case d ''forks_count'' of None \<Rightarrow> PyInt 0 | Some v \<Rightarrow> v)
             \<and> r ''open_issues'' =
                 Some (case d ''open_issues_count'' of None \<Rightarrow> PyInt 0 | Some v \<Rightarrow> v)))"
proof (intro conjI impI)
  from assms(1,2) have ne: "d \<noteq> Map.empty" "d' \<noteq> Map.empty" by simp_all
  have "dict_get d' ''language'' v = dict_get d ''language'' v"
    "dict_get d' ''size'' v = dict_get d ''size'' v"
    "dict_get d' ''stargazers_count'' v = dict_get d ''stargazers_count'' v"
    "dict_get d' ''forks_count'' v = dict_get d ''forks_count'' v"
    "dict_get d' ''open_issues_count'' v = dict_get d ''open_issues_count'' v" for v
    using assms(3-7) by (simp_all add: dict_get_def)
  then show "analyze_code_metrics (Dict d') = analyze_code_metrics (Dict d)"
    by (simp only: analyze_Dict [OF ne(1)] analyze_Dict [OF ne(2)])
next
  assume "well_formed d"
  with assms(1) obtain s t :: int and i :: int and r where
    "analyze_code_metrics (Dict d) = Inr r"
    "r ''main_language'' = Some (dict_get d ''language'' (PyStr ''Unknown''))"
    "r ''repository_size_kb'' = Some (dict_get d ''size'' (PyInt 0))"
    "r ''stars'' = Some (dict_get d ''stargazers_count'' (PyInt 0))"
    "r ''forks'' = Some (dict_get d ''forks_count'' (PyInt 0))"
    "r ''open_issues'' = Some (dict_get d ''open_issues_count'' (PyInt 0))"
    by (rule analyze_well_formed) simp
  then show "\<exists>r. analyze_code_metrics (Dict d) = Inr r
             \<and> r ''main_language'' =
                 Some (case d ''language'' of None \<Rightarrow> PyStr ''Unknown'' | Some v \<Rightarrow> v)
             \<and> r ''repository_size_kb'' =
                 Some (case d ''size'' of None \<Rightarrow> PyInt 0 | Some v \<Rightarrow> v)
             \<and> r ''stars'' =
                 Some (case d ''stargazers_count'' of None \<Rightarrow> PyInt 0 | Some v \<Rightarrow> v)
             \<and> r ''forks'' =
                 Some (case d ''forks_count'' of None \<Rightarrow> PyInt 0 | Some v \<Rightarrow> v)
             \<and> r ''open_issues'' =
                 Some (case d ''open_issues_count'' of None \<Rightarrow> PyInt 0 | Some v \<Rightarrow> v)"
    by (simp add: dict_get_def)
qed

theorem consumed_keys_and_pass_through_witness:
  "truthy (Dict example_descriptor)
   \<and> truthy (Dict (example_descriptor(''name'' \<mapsto> PyStr ''demo'', ''archived'' \<mapsto> PyBool False)))
   \<and> well_formed example_descriptor
   \<and> analyze_code_metrics
        (Dict (example_descriptor(''name'' \<mapsto> PyStr ''demo'', ''archived'' \<mapsto> PyBool False)))
       = analyze_code_metrics (Dict example_descriptor)
   \<and> (\<exists>r. analyze_code_metrics (Dict example_descriptor) = Inr r
          \<and> r ''main_language'' = Some (PyStr ''Python'')
          \<and> r ''repository_size_kb'' = Some (PyInt 5000)
          \<and> r ''stars'' = Some (PyInt 500)
          \<and> r ''forks'' = Some (PyInt 10)
          \<and> r ''open_issues'' = Some (PyInt 3))"
proof -
  let ?d' = "example_descriptor(''name'' \<mapsto> PyStr ''demo'', ''archived'' \<mapsto> PyBool False)"
  have h: "truthy (Dict example_descriptor)" "truthy (Dict ?d')"
    "?d' ''language'' = example_descriptor ''language''"
    "?d' ''size'' = example_descriptor ''size''"
    "?d' ''stargazers_count'' = example_descriptor ''stargazers_count''"
    "?d' ''forks_count'' = example_descriptor ''forks_count''"
    "?d' ''open_issues_count'' = example_descriptor ''open_issues_count''"
    using example_nonempty by simp_all
  have v: "example_descriptor ''language'' = Some (PyStr ''Python'')"
    "example_descriptor ''size'' = Some (PyInt 5000)"
    "example_descriptor ''stargazers_count'' = Some (PyInt 500)"
    "example_descriptor ''forks_count'' = Some (PyInt 10)"
    "example_descriptor ''open_issues_count'' = Some (PyInt 3)"
    by (simp_all add: example_descriptor_def)
  note c = consumed_keys_and_pass_through [OF h]
  from c have same: "analyze_code_metrics (Dict ?d') = analyze_code_metrics (Dict example_descriptor)"
    by (rule conjunct1)
  from c example_well_formed have "\<exists>r. analyze_code_metrics (Dict example_descriptor) = Inr r
          \<and> r ''main_language'' = Some (PyStr ''Python'')
          \<and> r ''repository_size_kb'' = Some (PyInt 5000)
          \<and> r ''stars'' = Some (PyInt 500)
          \<and> r ''forks'' = Some (PyInt 10)
          \<and> r ''open_issues'' = Some (PyInt 3)"
    by (simp add: v)
  with same h(1,2) example_well_formed show ?thesis
    by blast
qed

section \<open>The body on the store\<close>

lemma st_bind_lift: "st_bind (st_lift r) f s = (case r of Inl e \<Rightarrow> (Inl e, s) | Inr x \<Rightarrow> f x s)"
  by (simp add: st_bind_def st_lift_def split: sum.splits)

lemma st_bind_truthy: "st_bind (st_truthy a) f s = f (truthy (s ! a)) s"
  by (simp add: st_bind_def st_truthy_def)

lemma st_bind_get:
  "st_bind (st_get a key dflt) f s =
     (case py_get (s ! a) key dflt of Inl e \<Rightarrow> (Inl e, s) | Inr v \<Rightarrow> f v s)"
  by (simp add: st_bind_def st_get_def split: sum.splits)

text \<open>
  Running the body on the store gives the outcome of \<open>analyze_code_metrics\<close> on the object
  behind the reference; an exception leaves the store as it was, and a return adds the
  returned dict as one new object.
\<close>

lemma analyze_code_metrics_call_refines:
  "analyze_code_metrics_call a s =
     (case analyze_code_metrics (s ! a) of
        Inl e \<Rightarrow> (Inl e, s)
      | Inr r \<Rightarrow> (Inr (length s), s @ [Dict r]))"
proof (cases "truthy (s ! a)")
  case False
  then show ?thesis
    by (simp add: analyze_code_metrics_call_def analyze_code_metrics_def st_bind_truthy
        st_new_dict_def)
next
  case True
  show ?thesis
  proof (cases "s ! a")
    case (Scalar v)
    with True show ?thesis
      by (simp add: analyze_code_metrics_call_def analyze_code_metrics_def st_bind_truthy
          st_bind_get py_get_def bind_result_def)
  next
    case (Dict d)
    with True show ?thesis
      unfolding analyze_code_metrics_call_def analyze_code_metrics_def st_bind_truthy
        st_bind_get st_bind_lift py_get_def bind_result_def st_new_dict_def
      by (simp split: sum.splits)
  qed
qed

text \<open>
  Not every statement leaves the existing objects alone: an item assignment on the argument
  changes the caller's descriptor.
\<close>

lemma setitem_changes_argument:
  "snd (st_setitem 0 ''seen'' (PyBool True) [Dict example_descriptor]) ! 0
     \<noteq> Dict example_descriptor"
proof -
  have "(example_descriptor(''seen'' \<mapsto> PyBool True)) ''seen'' \<noteq> example_descriptor ''seen''"
    by (simp add: example_descriptor_def)
  then have "example_descriptor(''seen'' \<mapsto> PyBool True) \<noteq> example_descriptor"
    by metis
  then show ?thesis
    by (simp add: st_setitem_def)
qed

section \<open>Totality, purity and negative counters\<close>

text \<open>
  C8: the function is total on well-formed descriptors: for every dict whose present keys
  hold values of the expected types, keys missing or not, the empty dict included, the call
  returns a dict and raises nothing. (\<open>ill_typed_size_raises\<close> shows a dict outside this
  class on which the call does raise.)
\<close>

theorem analyze_code_metrics_total:
  assumes "well_formed d"
  shows "\<exists>r. analyze_code_metrics (Dict d) = Inr r"
proof (cases "truthy (Dict d)")
  case True
  from True assms obtain s t i r where "analyze_code_metrics (Dict d) = Inr r"
    by (rule analyze_well_formed) simp
  then show ?thesis by blast
next
  case False
  then show ?thesis by (simp add: analyze_code_metrics_def)
qed

theorem analyze_code_metrics_total_witness:
  "well_formed [''language'' \<mapsto> PyStr ''Go'', ''topics'' \<mapsto> PyNone]
   \<and> (\<exists>r. analyze_code_metrics (Dict [''language'' \<mapsto> PyStr ''Go'', ''topics'' \<mapsto> PyNone]) = Inr r)"
proof -
  have h: "well_formed [''language'' \<mapsto> PyStr ''Go'', ''topics'' \<mapsto> PyNone]"
    by (simp add: well_formed_def absent_or_def)
  from analyze_code_metrics_total [OF h] h show ?thesis by simp
qed

text \<open>
  C9: the function is pure and deterministic. Run on the object store with a live reference
  \<^verbatim>\<open>repo_data\<close>, the body leaves every object that existed before the call unchanged, the
  descriptor among them (the only object a call adds is the dict it returns); its outcome
  (the exception, or the returned dict by value) is determined by the value of the descriptor
  alone, whatever else the store holds; and a second call on the same descriptor, made in
  the store the first call left behind, has the same outcome.
\<close>

theorem analyze_code_metrics_call_pure:
  assumes "repo_data < length s"
  shows "\<exists>out1 s1 out2 s2.
       analyze_code_metrics_call repo_data s = (out1, s1)
     \<and> analyze_code_metrics_call repo_data s1 = (out2, s2)
     \<and> take (length s) s1 = s
     \<and> s1 ! repo_data = s ! repo_data
     \<and> returned (out1, s1) = map_sum id Dict (analyze_code_metrics (s ! repo_data))
     \<and> returned (out2, s2) = returned (out1, s1)"
proof (cases "analyze_code_metrics (s ! repo_data)")
  case (Inl e)
  with assms show ?thesis
    by (simp add: analyze_code_metrics_call_refines returned_def)
next
  case (Inr r)
  with assms show ?thesis
    by (simp add: analyze_code_metrics_call_refines returned_def nth_append)
qed

theorem analyze_code_metrics_call_pure_witness:
  "(0::nat) < length [Dict example_descriptor]
   \<and> (\<exists>out1 s1 out2 s2.
       analyze_code_metrics_call 0 [Dict example_descriptor] = (out1, s1)
     \<and> analyze_code_metrics_call 0 s1 = (out2, s2)
     \<and> s1 ! 0 = Dict example_descriptor
     \<and> returned (out2, s2) = returned (out1, s1)
     \<and> returned (out1, s1) =
      Inr (Dict [''main_language'' \<mapsto> PyStr ''Python'',
           ''project_size'' \<mapsto> PyStr ''Medium'',
           ''popularity_level'' \<mapsto> PyStr ''Medium'',
           ''activity_level'' \<mapsto> PyStr ''Moderate'',
           ''repository_size_kb'' \<mapsto> PyInt 5000,
           ''stars'' \<mapsto> PyInt 500,
           ''forks'' \<mapsto> PyInt 10,
           ''open_issues'' \<mapsto> PyInt 3,
           ''complexity_summary'' \<mapsto> PyStr ''Medium Python project with medium popularity'']))"
proof -
  have h: "(0::nat) < length [Dict example_descriptor]" by simp
  from analyze_code_metrics_call_pure [OF h] h show ?thesis
    by (simp add: example_result) blast
qed

text \<open>
  C10: the function also returns a result for descriptors whose counters are negative ints:
  a negative \<^verbatim>\<open>size\<close> gives \<^verbatim>\<open>project_size\<close> \<^verbatim>\<open>Small\<close>, a negative \<^verbatim>\<open>stargazers_count\<close> gives
  \<^verbatim>\<open>popularity_level\<close> \<^verbatim>\<open>Low\<close>, and a negative \<^verbatim>\<open>open_issues_count\<close> gives
  \<^verbatim>\<open>activity_level\<close> \<^verbatim>\<open>Low\<close>.
\<close>

theorem negative_counters:
  assumes "truthy (Dict d)" and "well_formed d"
    and "dict_get d ''size'' (PyInt 0) = PyInt size_kb"
    and "dict_get d ''stargazers_count'' (PyInt 0) = PyInt stars"
    and "dict_get d ''open_issues_count'' (PyInt 0) = PyInt issues"
  shows "\<exists>r. analyze_code_metrics (Dict d) = Inr r
     \<and> (size_kb < 0 \<longrightarrow> r ''project_size'' = Some (PyStr ''Small''))
     \<and> (stars < 0 \<longrightarrow> r ''popularity_level'' = Some (PyStr ''Low''))
     \<and> (issues < 0 \<longrightarrow> r ''activity_level'' = Some (PyStr ''Low''))"
proof -
  from assms(1,2) obtain s t i r where
    f: "dict_get d ''size'' (PyInt 0) = PyInt s"
      "dict_get d ''stargazers_count'' (PyInt 0) = PyInt t"
      "dict_get d ''open_issues_count'' (PyInt 0) = PyInt i"
    and r: "analyze_code_metrics (Dict d) = Inr r"
      "r ''project_size'' =
         Some (PyStr (if s < 1000 then ''Small'' else if s < 10000 then ''Medium'' else ''Large''))"
      "r ''popularity_level'' =
         Some (PyStr (if t < 100 then ''Low'' else if t < 1000 then ''Medium'' else ''High''))"
      "r ''activity_level'' =
         Some (PyStr (if i > 10 then ''Active'' else if i > 0 then ''Moderate'' else ''Low''))"
    by (rule analyze_well_formed) simp
  from f assms(3-5) have "s = size_kb" "t = stars" "i = issues" by simp_all
  with r show ?thesis by simp
qed

theorem negative_counters_witness:
  "truthy (Dict [''size'' \<mapsto> PyInt (- 1), ''stargazers_count'' \<mapsto> PyInt (- 5),
                 ''forks_count'' \<mapsto> PyInt (- 2), ''open_issues_count'' \<mapsto> PyInt (- 3)])
   \<and> well_formed [''size'' \<mapsto> PyInt (- 1), ''stargazers_count'' \<mapsto> PyInt (- 5),
                 ''forks_count'' \<mapsto> PyInt (- 2), ''open_issues_count'' \<mapsto> PyInt (- 3)]
   \<and> (- 1 :: int) < 0 \<and> (- 5 :: int) < 0 \<and> (- 3 :: int) < 0
   \<and> (\<exists>r. analyze_code_metrics
              (Dict [''size'' \<mapsto> PyInt (- 1), ''stargazers_count'' \<mapsto> PyInt (- 5),
                     ''forks_count'' \<mapsto> PyInt (- 2), ''open_issues_count'' \<mapsto> PyInt (- 3)])
            = Inr r
          \<and> r ''project_size'' = Some (PyStr ''Small'')
          \<and> r ''popularity_level'' = Some (PyStr ''Low'')
          \<and> r ''activity_level'' = Some (PyStr ''Low''))"
proof -
  let ?d = "[''size'' \<mapsto> PyInt (- 1), ''stargazers_count'' \<mapsto> PyInt (- 5),
             ''forks_count'' \<mapsto> PyInt (- 2), ''open_issues_count'' \<mapsto> PyInt (- 3)]"
  have h: "truthy (Dict ?d)" "well_formed ?d"
    "dict_get ?d ''size'' (PyInt 0) = PyInt (- 1)"
    "dict_get ?d ''stargazers_count'' (PyInt 0) = PyInt (- 5)"
    "dict_get ?d ''open_issues_count'' (PyInt 0) = PyInt (- 3)"
    by (simp_all add: well_formed_def absent_or_def dict_get_def)
  from negative_counters [OF h] h(1,2) show ?thesis by simp
qed

end
